theory Spec2Isabelle
  imports Complex_Main "HOL-Library.Sublist" "HOL-Library.Signed_Division"
begin

section \<open>JavaScript values and the built-ins the code calls\<close>

text \<open>
  Strings are lists of characters, one \<^typ>\<open>char\<close> per code unit (code units below 256).
  A thrown value is an \<open>error\<close>: \<open>Error m\<close> is \<^verbatim>\<open>new Error(m)\<close>, \<open>TypeError\<close> and
  \<open>SyntaxError\<close> are the engine's own errors with their message, and \<open>NonError\<close> is a
  thrown or rejected value that is not an instance of \<^verbatim>\<open>Error\<close> (the \<^verbatim>\<open>ProgressEvent\<close> a
  \<^verbatim>\<open>FileReader\<close> rejects with, for one).
\<close>

datatype error = Error string | TypeError string | SyntaxError string | NonError

fun instanceofError :: "error \<Rightarrow> bool" where
  "instanceofError NonError = False"
| "instanceofError _ = True"

text \<open>
  A number is the value of a double: a rational, or one of the infinities that
  \<^verbatim>\<open>JSON.parse\<close> gives for a literal out of range.
\<close>

datatype number = Finite rat | PlusInfinity | MinusInfinity

datatype jsval =
    JUndefined
  | JNull
  | JBool bool
  | JNumber number
  | JString string
  | JArray "jsval list"
  | JObject "(string \<times> jsval) list"

text \<open>\<^verbatim>\<open>e.message\<close>.\<close>

fun message :: "error \<Rightarrow> jsval" where
  "message (Error m) = JString m"
| "message (TypeError m) = JString m"
| "message (SyntaxError m) = JString m"
| "message NonError = JUndefined"

text \<open>
  The engine's built-ins whose result this repository does not compute are parameters:
  \<^verbatim>\<open>JSON.parse\<close> (\<open>Inl\<close> is the \<^verbatim>\<open>SyntaxError\<close> it throws) and the decimal text of a number.
\<close>

record engine =
  JSON_parse :: "string \<Rightarrow> error + jsval"
  Number_toString :: "number \<Rightarrow> string"

fun truthy :: "jsval \<Rightarrow> bool" where
  "truthy JUndefined = False"
| "truthy JNull = False"
| "truthy (JBool b) = b"
| "truthy (JNumber n) = (n \<noteq> Finite 0)"
| "truthy (JString s) = (s \<noteq> [])"
| "truthy (JArray xs) = True"
| "truthy (JObject kvs) = True"

fun typeof :: "jsval \<Rightarrow> string" where
  "typeof JUndefined = ''undefined''"
| "typeof JNull = ''object''"
| "typeof (JBool b) = ''boolean''"
| "typeof (JNumber n) = ''number''"
| "typeof (JString s) = ''string''"
| "typeof (JArray xs) = ''object''"
| "typeof (JObject kvs) = ''object''"

fun nullish :: "jsval \<Rightarrow> bool" where
  "nullish JUndefined = True"
| "nullish JNull = True"
| "nullish _ = False"

text \<open>
  \<^verbatim>\<open>v.k\<close> for a key \<open>k\<close> that no prototype defines (every key read in this repository is
  such a key): an own property of an object, \<^verbatim>\<open>undefined\<close> on any other value, and a
  \<^verbatim>\<open>TypeError\<close> on \<^verbatim>\<open>null\<close> and \<^verbatim>\<open>undefined\<close>.
\<close>

fun getProp :: "jsval \<Rightarrow> string \<Rightarrow> error + jsval" where
  "getProp JUndefined k =
     Inl (TypeError (''Cannot read properties of undefined (reading '' @ [CHR 0x27] @ k @ [CHR 0x27] @ '')''))"
| "getProp JNull k =
     Inl (TypeError (''Cannot read properties of null (reading '' @ [CHR 0x27] @ k @ [CHR 0x27] @ '')''))"
| "getProp (JObject kvs) k = Inr (case map_of kvs k of None \<Rightarrow> JUndefined | Some v \<Rightarrow> v)"
| "getProp _ k = Inr JUndefined"

text \<open>\<^verbatim>\<open>v?.k\<close>: \<^verbatim>\<open>undefined\<close> when \<open>v\<close> is \<^verbatim>\<open>null\<close> or \<^verbatim>\<open>undefined\<close>.\<close>

definition optProp :: "jsval \<Rightarrow> string \<Rightarrow> jsval" where
  "optProp v k = (case getProp v k of Inl e \<Rightarrow> JUndefined | Inr w \<Rightarrow> w)"

text \<open>\<^verbatim>\<open>v?.[0]\<close>: the first element of an array, the first code unit of a string.\<close>

fun optIndex0 :: "jsval \<Rightarrow> jsval" where
  "optIndex0 (JArray []) = JUndefined"
| "optIndex0 (JArray (x # xs)) = x"
| "optIndex0 (JString []) = JUndefined"
| "optIndex0 (JString (c # cs)) = JString [c]"
| "optIndex0 (JObject kvs) = (case map_of kvs ''0'' of None \<Rightarrow> JUndefined | Some v \<Rightarrow> v)"
| "optIndex0 _ = JUndefined"

definition isWhiteSpace :: "char \<Rightarrow> bool" where
  "isWhiteSpace c \<longleftrightarrow> c \<in> set [CHR 0x09, CHR 0x0A, CHR 0x0B, CHR 0x0C, CHR 0x0D, CHR 0x20, CHR 0xA0]"

definition trim :: "string \<Rightarrow> string" where
  "trim s = rev (dropWhile isWhiteSpace (rev (dropWhile isWhiteSpace s)))"

definition digit :: "nat \<Rightarrow> char" where
  "digit d = ''0123456789'' ! d"

fun decimal :: "nat \<Rightarrow> string" where
  "decimal n = (if n < 10 then [digit n] else decimal (n div 10) @ [digit (n mod 10)])"

declare decimal.simps [simp del]

text \<open>The text of an integer-valued number, as a template literal or \<^verbatim>\<open>toString()\<close> gives it.\<close>

definition Integer_toString :: "int \<Rightarrow> string" where
  "Integer_toString i = (if i < 0 then CHR ''-'' # decimal (nat (- i)) else decimal (nat i))"

text \<open>
  \<^verbatim>\<open>String(v)\<close>, which a template literal and the \<^verbatim>\<open>Error\<close> constructor apply. An
  object prints as \<^verbatim>\<open>[object Object]\<close> unless an own property hides \<^verbatim>\<open>toString\<close>, and an
  array joins its elements with commas, \<^verbatim>\<open>null\<close> and \<^verbatim>\<open>undefined\<close> printing as nothing.
\<close>

fun join :: "(error + string) list \<Rightarrow> error + string" where
  "join [] = Inr []"
| "join [x] = x"
| "join (x # y # ys) =
     (case x of Inl e \<Rightarrow> Inl e
      | Inr s \<Rightarrow> (case join (y # ys) of Inl e \<Rightarrow> Inl e | Inr t \<Rightarrow> Inr (s @ '','' @ t)))"

fun ToString :: "engine \<Rightarrow> jsval \<Rightarrow> error + string" where
  "ToString eng JUndefined = Inr ''undefined''"
| "ToString eng JNull = Inr ''null''"
| "ToString eng (JBool b) = Inr (if b then ''true'' else ''false'')"
| "ToString eng (JNumber n) = Inr (Number_toString eng n)"
| "ToString eng (JString s) = Inr s"
| "ToString eng (JArray xs) =
     join (map (\<lambda>x. if nullish x then Inr [] else ToString eng x) xs)"
| "ToString eng (JObject kvs) =
     (if map_of kvs ''toString'' = None then Inr ''[object Object]''
      else Inl (TypeError ''Cannot convert object to primitive value''))"

section \<open>The pattern of the response parser\<close>

text \<open>
  The regular expressions of this repository are sequences of single-character atoms,
  each taken once or under a greedy star. \<open>matchHere\<close> is the backtracking matcher: a
  star first tries one more character and falls back to none.
\<close>

datatype atom = Lit char | AnyChar

datatype item = One atom | Star atom

type_synonym regex = "item list"

fun accepts :: "atom \<Rightarrow> char \<Rightarrow> bool" where
  "accepts (Lit c) x = (x = c)"
| "accepts AnyChar x = True"

fun matchHere :: "regex \<Rightarrow> string \<Rightarrow> string option" where
  "matchHere [] s = Some []"
| "matchHere (One a # r) [] = None"
| "matchHere (One a # r) (c # s) =
     (if accepts a c then map_option ((#) c) (matchHere r s) else None)"
| "matchHere (Star a # r) [] = matchHere r []"
| "matchHere (Star a # r) (c # s) =
     (if accepts a c
      then (case matchHere (Star a # r) s of
              Some m \<Rightarrow> Some (c # m)
            | None \<Rightarrow> matchHere r (c # s))
      else matchHere r (c # s))"

text \<open>
  \<^verbatim>\<open>s.match(re)\<close> without the \<^verbatim>\<open>g\<close> flag: the match at the leftmost position that has
  one; the result is element 0 of the match array, \<open>None\<close> is \<^verbatim>\<open>null\<close>.
\<close>

fun String_match :: "string \<Rightarrow> regex \<Rightarrow> string option" where
  "String_match [] re = matchHere re []"
| "String_match (c # s) re =
     (case matchHere re (c # s) of Some m \<Rightarrow> Some m | None \<Rightarrow> String_match s re)"

text \<open>The literal \<^verbatim>\<open>/\[[\s\S]*\]/\<close>.\<close>

definition jsonArrayPattern :: regex where
  "jsonArrayPattern = [One (Lit CHR ''[''), Star AnyChar, One (Lit CHR '']'')]"

section \<open>ClaudeService\<close>

type_synonym storage = "string \<rightharpoonup> string"

definition API_KEY_STORAGE_KEY :: string where
  "API_KEY_STORAGE_KEY = ''claude_api_key''"

definition saveApiKey :: "string \<Rightarrow> storage \<Rightarrow> storage" where
  "saveApiKey apiKey localStorage = localStorage(API_KEY_STORAGE_KEY \<mapsto> apiKey)"

definition getApiKey :: "storage \<Rightarrow> string option" where
  "getApiKey localStorage = localStorage API_KEY_STORAGE_KEY"

text \<open>
  What \<^verbatim>\<open>fetch\<close> resolved with: the \<^verbatim>\<open>ok\<close> flag, the status, and what \<^verbatim>\<open>response.json()\<close>
  gives (\<open>Inl\<close> when the body is not JSON).
\<close>

record response =
  ok :: bool
  status :: nat
  json :: "error + jsval"

text \<open>
  The callback of \<^verbatim>\<open>flashcards.filter\<close>. \<^verbatim>\<open>&&\<close> reads \<^verbatim>\<open>card.front\<close> only once \<open>card\<close> is
  truthy, where the read cannot throw.
\<close>

definition isValidFlashcard :: "jsval \<Rightarrow> bool" where
  "isValidFlashcard card' \<longleftrightarrow>
     truthy card' \<and>
     typeof card' = ''object'' \<and>
     typeof (optProp card' ''front'') = ''string'' \<and>
     typeof (optProp card' ''back'') = ''string'' \<and>
     (case optProp card' ''front'' of JString f \<Rightarrow> trim f \<noteq> [] | _ \<Rightarrow> False) \<and>
     (case optProp card' ''back'' of JString b \<Rightarrow> trim b \<noteq> [] | _ \<Rightarrow> False)"

text \<open>
  The body of the \<^verbatim>\<open>try\<close> block once the response is there: the message for a response
  that is not \<^verbatim>\<open>ok\<close>, the text \<^verbatim>\<open>data.content?.[0]?.text\<close>, the match and the parse of the
  text, and the check and the filter of what was parsed.
\<close>

definition errorMessage :: "engine \<Rightarrow> response \<Rightarrow> error + string" where
  "errorMessage eng r =
     (let errorData = (case json r of Inl e \<Rightarrow> JObject [] | Inr v \<Rightarrow> v) in
      case getProp errorData ''error'' of
        Inl e \<Rightarrow> Inl e
      | Inr err \<Rightarrow>
          (let m = optProp err ''message'' in
           if truthy m then ToString eng m
           else Inr (''HTTP '' @ decimal (status r) @ '': Failed to generate flashcards'')))"

definition contentText :: "jsval \<Rightarrow> error + jsval" where
  "contentText data =
     (case getProp data ''content'' of
        Inl e \<Rightarrow> Inl e
      | Inr c \<Rightarrow> Inr (optProp (if nullish c then JUndefined else optIndex0 c) ''text''))"

definition validateFlashcards :: "jsval \<Rightarrow> error + jsval list" where
  "validateFlashcards flashcards =
     (case flashcards of
        JArray entries \<Rightarrow>
          (let validFlashcards = filter isValidFlashcard entries in
           if length validFlashcards = 0
           then Inl (Error ''No valid flashcards found in response'')
           else Inr validFlashcards)
      | _ \<Rightarrow> Inl (Error ''Response is not a valid flashcard array''))"

definition parseFlashcards :: "engine \<Rightarrow> jsval \<Rightarrow> error + jsval list" where
  "parseFlashcards eng content_text =
     (if \<not> truthy content_text then Inl (Error ''No response content received from Claude'')
      else case content_text of
        JString t \<Rightarrow>
          (case String_match t jsonArrayPattern of
             None \<Rightarrow> Inl (Error ''Could not find valid JSON in Claude response'')
           | Some jsonMatch \<Rightarrow>
               (case JSON_parse eng jsonMatch of
                  Inl e \<Rightarrow> Inl e
                | Inr flashcards \<Rightarrow> validateFlashcards flashcards))
      | _ \<Rightarrow> Inl (TypeError ''content_text.match is not a function''))"

definition tryBlock :: "engine \<Rightarrow> error + response \<Rightarrow> error + jsval list" where
  "tryBlock eng fetched =
     (case fetched of
        Inl e \<Rightarrow> Inl e
      | Inr r \<Rightarrow>
          if \<not> ok r then
            (case errorMessage eng r of Inl e \<Rightarrow> Inl e | Inr m \<Rightarrow> Inl (Error m))
          else
            (case json r of
               Inl e \<Rightarrow> Inl e
             | Inr data \<Rightarrow>
                 (case contentText data of
                    Inl e \<Rightarrow> Inl e
                  | Inr content_text \<Rightarrow> parseFlashcards eng content_text)))"

text \<open>
  \<^verbatim>\<open>generateFlashcards\<close>: \<open>fetched\<close> is what the request to the API came back with
  (\<open>Inl\<close> when \<^verbatim>\<open>fetch\<close> rejected). The \<^verbatim>\<open>catch\<close> clause throws an \<^verbatim>\<open>Error\<close> on unchanged.
\<close>

definition generateFlashcards :: "engine \<Rightarrow> storage \<Rightarrow> error + response \<Rightarrow> error + jsval list" where
  "generateFlashcards eng localStorage fetched =
     (case getApiKey localStorage of
        None \<Rightarrow> Inl (Error ''API key not found'')
      | Some apiKey \<Rightarrow>
          if apiKey = [] then Inl (Error ''API key not found'')
          else
            (case tryBlock eng fetched of
               Inl e \<Rightarrow>
                 if instanceofError e then Inl e
                 else Inl (Error ''Failed to generate flashcards'')
             | Inr cards \<Rightarrow> Inr cards))"

section \<open>Toasts and files\<close>

datatype variant = default | destructive

record toast =
  title :: string
  description :: jsval
  variant :: variant

text \<open>The toasts shown so far, which every component with a \<^verbatim>\<open>toast\<close> hook adds to.\<close>

record toaster =
  toasts :: "toast list"

record File =
  name :: string
  size' :: nat
  type' :: string

section \<open>FileUpload\<close>

text \<open>
  The component's state, with what its handlers act on: the browser's
  \<^verbatim>\<open>localStorage\<close>, the value of the file input and the calls of \<^verbatim>\<open>onCardsGenerated\<close>.
\<close>

record FileUpload = toaster +
  file' :: "File option"
  isProcessing :: bool
  progress :: nat
  apiKey :: string
  fileInputValue :: string
  localStorage :: storage
  onCardsGenerated :: "jsval list list"

definition FileUpload_handleFileSelect :: "File option \<Rightarrow> FileUpload \<Rightarrow> FileUpload" where
  "FileUpload_handleFileSelect selectedFile s =
     (case selectedFile of None \<Rightarrow> s | Some f \<Rightarrow> s\<lparr>file' := Some f\<rparr>)"

text \<open>The \<^verbatim>\<open>catch\<close> clause of \<^verbatim>\<open>handleUpload\<close>.\<close>

definition processingFailed :: "error \<Rightarrow> toast" where
  "processingFailed e =
     \<lparr>title = ''Processing failed'',
      description = (if instanceofError e then message e else JString ''Failed to process document''),
      variant = destructive\<rparr>"

text \<open>
  \<^verbatim>\<open>handleUpload\<close>, from the click to the end of its \<^verbatim>\<open>finally\<close> clause: \<open>fileRead\<close> is what
  \<^verbatim>\<open>readFileContent\<close> settled with and \<open>fetched\<close> what the request to the API came back
  with. The progress values 20 to 80 are overwritten before the handler ends; the timer
  that resets the bar a second later is not part of the step.
\<close>

definition handleUpload ::
  "engine \<Rightarrow> error + string \<Rightarrow> error + response \<Rightarrow> FileUpload \<Rightarrow> FileUpload" where
  "handleUpload eng fileRead fetched s =
     (case file' s of
        None \<Rightarrow>
          s\<lparr>toasts := toasts s @
            [\<lparr>title = ''No file selected'',
              description = JString ''Please select a file to process'',
              variant = destructive\<rparr>]\<rparr>
      | Some f \<Rightarrow>
          if trim (apiKey s) = [] then
            s\<lparr>toasts := toasts s @
              [\<lparr>title = ''API Key required'',
                description = JString ''Please enter your Claude API key'',
                variant = destructive\<rparr>]\<rparr>
          else
            (let s1 = s\<lparr>localStorage := saveApiKey (apiKey s) (localStorage s)\<rparr>;
                 s2 =
                   (case fileRead of
                      Inl e \<Rightarrow> s1\<lparr>toasts := toasts s1 @ [processingFailed e]\<rparr>
                    | Inr fileContent \<Rightarrow>
                        (case generateFlashcards eng (localStorage s1) fetched of
                           Inl e \<Rightarrow> s1\<lparr>toasts := toasts s1 @ [processingFailed e]\<rparr>
                         | Inr generatedCards \<Rightarrow>
                             if length generatedCards > 0 then
                               s1\<lparr>onCardsGenerated := onCardsGenerated s1 @ [generatedCards],
                                  toasts := toasts s1 @
                                    [\<lparr>title = ''Success!'',
                                      description = JString (''Generated '' @ decimal (length generatedCards)
                                        @ '' flashcards from your document''),
                                      variant = default\<rparr>],
                                  file' := None,
                                  fileInputValue := []\<rparr>
                             else
                               s1\<lparr>toasts := toasts s1 @
                                 [\<lparr>title = ''No cards generated'',
                                   description =
                                     JString ''Could not extract questions and answers from the document'',
                                   variant = destructive\<rparr>]\<rparr>))
             in s2\<lparr>isProcessing := False, progress := 100\<rparr>))"

section \<open>Flashcard\<close>

text \<open>A card's two texts, as the props of \<^verbatim>\<open>Flashcard\<close> and the entries of the card list have them.\<close>

record card =
  front :: string
  back' :: string

record Flashcard = card +
  isFlipped :: bool

definition Flashcard :: "string \<Rightarrow> string \<Rightarrow> Flashcard" where
  "Flashcard f b = \<lparr>front = f, back' = b, isFlipped = False\<rparr>"

definition handleFlip :: "Flashcard \<Rightarrow> Flashcard" where
  "handleFlip c = c\<lparr>isFlipped := \<not> isFlipped c\<rparr>"

section \<open>StudyMode\<close>

text \<open>
  \<^verbatim>\<open>a % b\<close> on integers: the remainder has the sign of \<open>a\<close>, and \<open>None\<close> is the
  \<^verbatim>\<open>NaN\<close> of a zero divisor.
\<close>

definition remainder :: "int \<Rightarrow> int \<Rightarrow> int option" where
  "remainder a b = (if b = 0 then None else Some (a smod b))"

record FlashcardData = card +
  id' :: string

definition nextCard :: "FlashcardData list \<Rightarrow> int \<Rightarrow> int option" where
  "nextCard cards prev = remainder (prev + 1) (int (length cards))"

definition prevCard :: "FlashcardData list \<Rightarrow> int \<Rightarrow> int option" where
  "prevCard cards prev = remainder (prev - 1 + int (length cards)) (int (length cards))"

definition resetProgress :: "int" where
  "resetProgress = 0"

section \<open>Index\<close>

datatype mode = study | create

record Index =
  cards :: "FlashcardData list"
  mode :: mode

definition Index :: Index where
  "Index =
     \<lparr>cards =
        [\<lparr>front = ''What is the capital of France?'', back' = ''Paris'', id' = ''1''\<rparr>,
         \<lparr>front = ''What does HTML stand for?'', back' = ''HyperText Markup Language'', id' = ''2''\<rparr>],
      mode = study\<rparr>"

text \<open>
  \<open>now\<close> is what \<^verbatim>\<open>Date.now()\<close> returns, and \<open>s\<close> the state of the render whose \<open>cards\<close> the
  handler spreads.
\<close>

definition addCard :: "int \<Rightarrow> string \<Rightarrow> string \<Rightarrow> Index \<Rightarrow> Index" where
  "addCard now f b s =
     (let newCard = \<lparr>front = f, back' = b, id' = Integer_toString now\<rparr>
      in s\<lparr>cards := cards s @ [newCard], mode := study\<rparr>)"

text \<open>
  \<open>now index\<close> is what \<^verbatim>\<open>Date.now()\<close> returns in the callback for that index, and \<open>s\<close> the
  state the setter's function is applied to.
\<close>

definition addCardsFromDocument :: "(nat \<Rightarrow> int) \<Rightarrow> card list \<Rightarrow> Index \<Rightarrow> Index" where
  "addCardsFromDocument now newCards s =
     (let cardsWithIds =
        map (\<lambda>(index, c). \<lparr>front = front c, back' = back' c,
                           id' = Integer_toString (now index) @ ''-'' @ decimal index\<rparr>)
            (enumerate 0 newCards)
      in s\<lparr>cards := cards s @ cardsWithIds, mode := study\<rparr>)"

text \<open>
  The page between two renders. \<open>rendered\<close> is the state of the last render: the handlers
  on the page are the closures of that render and read its \<open>cards\<close> and its \<open>mode\<close>.
  \<open>latest\<close> is what the updates queued since then give, in the order of their calls: a call
  of a setter with a value replaces what was queued before it, a call with a function is
  applied to it. The next render shows \<open>latest\<close>.
\<close>

record Index_page =
  rendered :: Index
  latest :: Index

definition Index_page :: Index_page where
  "Index_page = \<lparr>rendered = Index, latest = Index\<rparr>"

text \<open>
  What can happen on the page. \<open>addCard\<close> is called by the form, which is there in the
  mode \<open>create\<close>; it sets the cards to a value made from the cards of its render.
  \<open>addCardsFromDocument\<close> is called when the answer to an upload arrives, and appends with
  a function of the previous cards. The header's button sets the mode from the mode of its
  render; the button back to the form is there in the mode \<open>study\<close>, the button to start
  studying in the mode \<open>create\<close> once there are cards.
\<close>

datatype Index_event =
    AddCard int string string
  | AddCardsFromDocument "nat \<Rightarrow> int" "card list"
  | ToggleMode
  | BackToCreate
  | StartStudying
  | Render

fun Index_step :: "Index_page \<Rightarrow> Index_event \<Rightarrow> Index_page" where
  "Index_step p (AddCard now f b) =
     (if mode (rendered p) = create
      then p\<lparr>latest := (latest p)\<lparr>cards := cards (addCard now f b (rendered p)),
                                   mode := mode (addCard now f b (rendered p))\<rparr>\<rparr>
      else p)"
| "Index_step p (AddCardsFromDocument now newCards) =
     p\<lparr>latest := addCardsFromDocument now newCards (latest p)\<rparr>"
| "Index_step p ToggleMode =
     p\<lparr>latest := (latest p)\<lparr>mode := (if mode (rendered p) = study then create else study)\<rparr>\<rparr>"
| "Index_step p BackToCreate =
     (if mode (rendered p) = study then p\<lparr>latest := (latest p)\<lparr>mode := create\<rparr>\<rparr> else p)"
| "Index_step p StartStudying =
     (if mode (rendered p) = create \<and> length (cards (rendered p)) > 0
      then p\<lparr>latest := (latest p)\<lparr>mode := study\<rparr>\<rparr>
      else p)"
| "Index_step p Render = p\<lparr>rendered := latest p\<rparr>"

definition Index_run :: "Index_event list \<Rightarrow> Index_page \<Rightarrow> Index_page" where
  "Index_run evs p = foldl Index_step p evs"

section \<open>The API configuration\<close>

text \<open>\<open>env\<close> is \<^verbatim>\<open>import.meta.env.VITE_API_BASE_URL\<close>, \<open>None\<close> when it is not set.\<close>

definition API_BASE_URL :: "string option \<Rightarrow> string" where
  "API_BASE_URL env =
     (case env of None \<Rightarrow> ''http://localhost:5001''
      | Some u \<Rightarrow> if u = [] then ''http://localhost:5001'' else u)"

definition startsWith :: "string \<Rightarrow> char \<Rightarrow> bool" where
  "startsWith s c = (case s of [] \<Rightarrow> False | x # xs \<Rightarrow> x = c)"

definition getApiUrl :: "string option \<Rightarrow> string \<Rightarrow> string" where
  "getApiUrl env endpoint =
     (let cleanEndpoint = (if startsWith endpoint CHR ''/'' then endpoint else ''/'' @ endpoint)
      in API_BASE_URL env @ cleanEndpoint)"

section \<open>CreateCardForm\<close>

text \<open>
  The component's state, with what its handlers act on: the file the input element
  holds, the requests sent with \<^verbatim>\<open>fetch\<close> (address and file of the form data) and the calls
  of the two callbacks. The callbacks are the parent's and return normally.
\<close>

record CreateCardForm = toaster +
  front_field :: string
  back_field :: string
  selectedFile :: "File option"
  isUploading :: bool
  fileInput :: "File option"
  requests :: "(string \<times> File) list"
  onAddCard :: "(string \<times> string) list"
  onAddCardsFromDocument :: "jsval list"

definition CreateCardForm :: CreateCardForm where
  "CreateCardForm =
     \<lparr>toasts = [], front_field = [], back_field = [], selectedFile = None, isUploading = False,
      fileInput = None, requests = [], onAddCard = [], onAddCardsFromDocument = []\<rparr>"

definition handleSubmit :: "CreateCardForm \<Rightarrow> CreateCardForm" where
  "handleSubmit s =
     (if trim (front_field s) \<noteq> [] \<and> trim (back_field s) \<noteq> [] then
        s\<lparr>onAddCard := onAddCard s @ [(trim (front_field s), trim (back_field s))],
          front_field := [],
          back_field := []\<rparr>
      else s)"

definition allowedTypes :: "string list" where
  "allowedTypes =
     [''text/plain'', ''application/pdf'', ''application/msword'',
      ''application/vnd.openxmlformats-officedocument.wordprocessingml.document'']"

text \<open>\<open>selected\<close> is \<^verbatim>\<open>e.target.files?.[0]\<close>.\<close>

definition handleFileSelect :: "File option \<Rightarrow> CreateCardForm \<Rightarrow> CreateCardForm" where
  "handleFileSelect selected s =
     (case selected of
        None \<Rightarrow> s
      | Some f \<Rightarrow>
          (let maxSize = 5 * 1024 * 1024 in
           if size' f > maxSize then
             s\<lparr>toasts := toasts s @
               [\<lparr>title = ''File too large'',
                 description = JString ''Please select a file smaller than 5MB.'',
                 variant = destructive\<rparr>]\<rparr>
           else if type' f \<notin> set allowedTypes then
             s\<lparr>toasts := toasts s @
               [\<lparr>title = ''Unsupported file type'',
                 description = JString ''Please select a TXT, PDF, DOC, or DOCX file.'',
                 variant = destructive\<rparr>]\<rparr>
           else s\<lparr>selectedFile := Some f\<rparr>))"

text \<open>The \<^verbatim>\<open>catch\<close> clause of \<^verbatim>\<open>handleFileUpload\<close>.\<close>

definition couldNotConnect :: toast where
  "couldNotConnect =
     \<lparr>title = ''Upload failed'',
      description = JString ''Could not connect to the server. Make sure the backend is running.'',
      variant = destructive\<rparr>"

text \<open>
  \<^verbatim>\<open>handleFileUpload\<close>, from the click to the end of its \<^verbatim>\<open>finally\<close> clause: \<open>fetched\<close> is
  what the request came back with. While the request is out \<open>isUploading\<close> holds and the
  input and both buttons are disabled.
\<close>

definition handleFileUpload ::
  "engine \<Rightarrow> string option \<Rightarrow> error + response \<Rightarrow> CreateCardForm \<Rightarrow> CreateCardForm" where
  "handleFileUpload eng env fetched s =
     (case selectedFile s of
        None \<Rightarrow> s
      | Some f \<Rightarrow>
          (let s1 = s\<lparr>requests := requests s @ [(getApiUrl env ''/upload'', f)]\<rparr>;
               failed = s1\<lparr>toasts := toasts s1 @ [couldNotConnect]\<rparr>;
               s2 =
                 (case fetched of
                    Inl e \<Rightarrow> failed
                  | Inr r \<Rightarrow>
                      (case json r of
                         Inl e \<Rightarrow> failed
                       | Inr data \<Rightarrow>
                           if ok r then
                             (case getProp data ''flashcards_count'' of
                                Inl e \<Rightarrow> failed
                              | Inr n \<Rightarrow>
                                  (case ToString eng n of
                                     Inl e \<Rightarrow> failed
                                   | Inr count \<Rightarrow>
                                       s1\<lparr>toasts := toasts s1 @
                                            [\<lparr>title = ''Success!'',
                                              description = JString
                                                (''Generated '' @ count @ '' flashcards from '' @ name f),
                                              variant = default\<rparr>],
                                          onAddCardsFromDocument :=
                                            onAddCardsFromDocument s1 @ [optProp data ''flashcards''],
                                          selectedFile := None,
                                          fileInput := None\<rparr>))
                           else
                             (case getProp data ''error'' of
                                Inl e \<Rightarrow> failed
                              | Inr err \<Rightarrow>
                                  s1\<lparr>toasts := toasts s1 @
                                    [\<lparr>title = ''Upload failed'',
                                      description =
                                        (if truthy err then err
                                         else JString ''An error occurred while processing your file.''),
                                      variant = destructive\<rparr>]\<rparr>)))
           in s2\<lparr>isUploading := False\<rparr>))"

definition clearFile :: "CreateCardForm \<Rightarrow> CreateCardForm" where
  "clearFile s = s\<lparr>selectedFile := None, fileInput := None\<rparr>"

text \<open>
  What a user can do on the form. Choosing a file puts it into the input element and
  fires the change handler; the upload button is disabled while no file is selected.
\<close>

datatype form_event =
    SetFront string
  | SetBack string
  | Submit
  | ChooseFile "File option"
  | ClickUpload "error + response"
  | ClickClear

fun CreateCardForm_step ::
  "engine \<Rightarrow> string option \<Rightarrow> CreateCardForm \<Rightarrow> form_event \<Rightarrow> CreateCardForm" where
  "CreateCardForm_step eng env s (SetFront v) = s\<lparr>front_field := v\<rparr>"
| "CreateCardForm_step eng env s (SetBack v) = s\<lparr>back_field := v\<rparr>"
| "CreateCardForm_step eng env s Submit = handleSubmit s"
| "CreateCardForm_step eng env s (ChooseFile selected) =
     handleFileSelect selected (s\<lparr>fileInput := selected\<rparr>)"
| "CreateCardForm_step eng env s (ClickUpload fetched) =
     (if selectedFile s = None then s else handleFileUpload eng env fetched s)"
| "CreateCardForm_step eng env s ClickClear =
     (if selectedFile s = None then s else clearFile s)"

definition CreateCardForm_run ::
  "engine \<Rightarrow> string option \<Rightarrow> form_event list \<Rightarrow> CreateCardForm \<Rightarrow> CreateCardForm" where
  "CreateCardForm_run eng env evs s = foldl (CreateCardForm_step eng env) s evs"

section \<open>The specification's words\<close>

text \<open>
  A valid entry as the specification words it: an object whose \<^verbatim>\<open>front\<close> and \<^verbatim>\<open>back\<close> are
  strings that are not empty once trimmed.
\<close>

fun spec_validEntry :: "jsval \<Rightarrow> bool" where
  "spec_validEntry (JObject kvs) =
     (case (map_of kvs ''front'', map_of kvs ''back'') of
        (Some (JString f), Some (JString b)) \<Rightarrow> trim f \<noteq> [] \<and> trim b \<noteq> []
      | _ \<Rightarrow> False)"
| "spec_validEntry _ = False"

text \<open>
  The first bracketed substring as the specification words it: from the first \<^verbatim>\<open>[\<close> of the
  reply to the earliest \<^verbatim>\<open>]\<close> after it.
\<close>

definition spec_firstBracketed :: "string \<Rightarrow> string option" where
  "spec_firstBracketed s =
     (case dropWhile (\<lambda>c. c \<noteq> CHR ''['') s of
        [] \<Rightarrow> None
      | b # rest \<Rightarrow>
          if CHR '']'' \<in> set rest
          then Some (b # takeWhile (\<lambda>c. c \<noteq> CHR '']'') rest @ '']'')
          else None)"

section \<open>Example inputs\<close>

text \<open>
  An engine for the examples: \<^verbatim>\<open>JSON.parse\<close> on the four texts the examples parse, a
  \<^verbatim>\<open>SyntaxError\<close> on any other text, and the text of a number right on the integers.
\<close>

definition example_parse :: "string \<Rightarrow> error + jsval" where
  \<open>example_parse s =
     (case map_of
        [(''[]'', JArray []),
         (''[{"front":"Q","back":"A"}]'',
            JArray [JObject [(''front'', JString ''Q''), (''back'', JString ''A'')]]),
         (''[{"front":"Q"}]'',
            JArray [JObject [(''front'', JString ''Q'')]]),
         (''[{"front":"Q","back":"A"},{"front":" ","back":"B"},null]'',
            JArray [JObject [(''front'', JString ''Q''), (''back'', JString ''A'')],
                    JObject [(''front'', JString '' ''), (''back'', JString ''B'')],
                    JNull])] s of
        Some v \<Rightarrow> Inr v
      | None \<Rightarrow> Inl (SyntaxError ''Unexpected token in JSON''))\<close>

definition example_engine :: engine where
  "example_engine =
     \<lparr>JSON_parse = example_parse,
      Number_toString =
        (\<lambda>n. case n of Finite r \<Rightarrow> Integer_toString \<lfloor>r\<rfloor>
              | PlusInfinity \<Rightarrow> ''Infinity'' | MinusInfinity \<Rightarrow> ''-Infinity'')\<rparr>"

text \<open>A response of the API whose one content block holds the model's reply.\<close>

definition example_response :: "string \<Rightarrow> response" where
  "example_response reply =
     \<lparr>ok = True, status = 200,
      json = Inr (JObject
        [(''id'', JString ''msg_01''),
         (''content'', JArray [JObject [(''type'', JString ''text''), (''text'', JString reply)]])])\<rparr>"

section \<open>Card navigation\<close>

lemma smod_nonneg:
  fixes a b :: int
  assumes "0 \<le> a" and "0 < b"
  shows "a smod b = a mod b"
proof (cases "a = 0")
  case True
  then show ?thesis by (simp add: signed_modulo_int_def)
next
  case False
  with assms have "sgn a = 1" and "\<bar>a\<bar> = a" and "\<bar>b\<bar> = b" by simp_all
  then show ?thesis by (simp add: signed_modulo_int_def)
qed

lemma remainder_nonneg:
  "0 \<le> a \<Longrightarrow> 0 < b \<Longrightarrow> remainder a b = Some (a mod b)"
  by (simp add: remainder_def smod_nonneg)

text \<open>
  Claim C3. On a non-empty card list of length \<open>len\<close> and an index \<open>0 \<le> i < len\<close>,
  \<open>nextCard\<close> gives \<open>(i + 1) mod len\<close> and \<open>prevCard\<close> gives \<open>(i - 1 + len) mod len\<close>:
  from the last card the next one is card 0, and from card 0 the previous one is the
  last card.
\<close>

theorem nextCard_prevCard_wrap:
  assumes "cs \<noteq> []" and "0 \<le> i" and "i < int (length cs)"
  shows "nextCard cs i = Some ((i + 1) mod int (length cs))
       \<and> prevCard cs i = Some ((i - 1 + int (length cs)) mod int (length cs))
       \<and> (i = int (length cs) - 1 \<longrightarrow> nextCard cs i = Some 0)
       \<and> (i = 0 \<longrightarrow> prevCard cs i = Some (int (length cs) - 1))"
proof -
  from assms have len: "0 < int (length cs)" by simp
  from assms have n: "nextCard cs i = Some ((i + 1) mod int (length cs))"
    unfolding nextCard_def using len by (intro remainder_nonneg) simp_all
  from assms have p: "prevCard cs i = Some ((i - 1 + int (length cs)) mod int (length cs))"
    unfolding prevCard_def using len by (intro remainder_nonneg) simp_all
  have last: "i = int (length cs) - 1 \<longrightarrow> nextCard cs i = Some 0"
  proof
    assume "i = int (length cs) - 1"
    then have "(i + 1) mod int (length cs) = 0" by simp
    with n show "nextCard cs i = Some 0" by simp
  qed
  have first: "i = 0 \<longrightarrow> prevCard cs i = Some (int (length cs) - 1)"
  proof
    assume "i = 0"
    then have e: "i - 1 + int (length cs) = int (length cs) - 1" by arith
    have "(int (length cs) - 1) mod int (length cs) = int (length cs) - 1"
      using len by (intro mod_pos_pos_trivial) simp_all
    with p e show "prevCard cs i = Some (int (length cs) - 1)" by (simp only:)
  qed
  from n p last first show ?thesis by blast
qed

text \<open>On the two cards the page starts with: next from the last card, previous from the first.\<close>

theorem nextCard_prevCard_wrap_witness:
  "cards Index \<noteq> [] \<and> (0::int) \<le> 1 \<and> (1::int) < int (length (cards Index))
   \<and> nextCard (cards Index) 1 = Some 0
   \<and> (0::int) \<le> 0 \<and> (0::int) < int (length (cards Index))
   \<and> prevCard (cards Index) 0 = Some 1"
  using nextCard_prevCard_wrap [of "cards Index" 1] nextCard_prevCard_wrap [of "cards Index" 0]
  by (simp add: Index_def)

section \<open>Flipping a card\<close>

text \<open>
  Claim C7. \<open>handleFlip\<close> negates \<open>isFlipped\<close>, two flips give the component back as it
  was, and the front and back texts are those of before.
\<close>

theorem handleFlip_toggles_display_only:
  "isFlipped (handleFlip c) = (\<not> isFlipped c)
   \<and> handleFlip (handleFlip c) = c
   \<and> front (handleFlip c) = front c
   \<and> back' (handleFlip c) = back' c"
  by (simp add: handleFlip_def)

section \<open>The card list\<close>

lemma map_snd_enumerate_comp:
  "map (\<lambda>x. g (snd x)) (enumerate n xs) = map g xs"
  by (induction xs arbitrary: n) simp_all

text \<open>
  Claim C8. \<open>addCard\<close> puts one card with the given front and back after the cards that
  were there; \<open>addCardsFromDocument\<close> puts the given cards after them, as many and in the
  order given, with their fronts and backs; both leave the mode at \<open>study\<close>.
\<close>

theorem addCard_addCardsFromDocument_append:
  "cards (addCard now f b s) = cards s @ [\<lparr>front = f, back' = b, id' = Integer_toString now\<rparr>]
   \<and> mode (addCard now f b s) = study
   \<and> length (cards (addCardsFromDocument nows newCards s)) = length (cards s) + length newCards
   \<and> take (length (cards s)) (cards (addCardsFromDocument nows newCards s)) = cards s
   \<and> map (\<lambda>c. (front c, back' c)) (drop (length (cards s)) (cards (addCardsFromDocument nows newCards s)))
       = map (\<lambda>c. (front c, back' c)) newCards
   \<and> mode (addCardsFromDocument nows newCards s) = study"
  by (simp add: addCard_def addCardsFromDocument_def Let_def comp_def case_prod_unfold
      map_snd_enumerate_comp [where g = "\<lambda>c. (front c, back' c)"])

text \<open>
  From one render to the next the list only grows: the cards queued extend the cards
  rendered, and a render shows the cards queued.
\<close>

lemma Index_step_latest:
  assumes "prefix (cards (rendered p)) (cards (latest p))"
  shows "prefix (cards (rendered (Index_step p ev))) (cards (latest (Index_step p ev)))"
    and "prefix (cards (rendered p)) (cards (rendered (Index_step p ev)))"
  using assms
  by (cases ev; auto simp: addCard_def addCardsFromDocument_def Let_def intro: prefix_order.order_trans)+

lemma Index_run_rendered:
  assumes "prefix (cards (rendered p)) (cards (latest p))"
  shows "prefix (cards (rendered p)) (cards (rendered (Index_run evs p)))"
  using assms unfolding Index_run_def
proof (induction evs arbitrary: p)
  case Nil
  show ?case by simp
next
  case (Cons ev evs)
  have "prefix (cards (rendered p)) (cards (rendered (Index_step p ev)))"
    by (rule Index_step_latest(2) [OF Cons.prems])
  also have "prefix (cards (rendered (Index_step p ev)))
      (cards (rendered (foldl Index_step (Index_step p ev) evs)))"
    by (rule Cons.IH [OF Index_step_latest(1) [OF Cons.prems]])
  finally show ?case by simp
qed


text \<open>With a render between the two calls the cards of the document stay.\<close>

lemma addCard_after_render_keeps_document_cards:
  "map front (cards (rendered (Index_run
      [ToggleMode, Render,
       AddCardsFromDocument (\<lambda>i. 1700000000000)
         [\<lparr>front = ''D1'', back' = ''A1''\<rparr>, \<lparr>front = ''D2'', back' = ''A2''\<rparr>],
       Render, ToggleMode, Render,
       AddCard 1700000000001 ''Q3'' ''A3'',
       Render]
      Index_page)))
   = [''What is the capital of France?'', ''What does HTML stand for?'', ''D1'', ''D2'', ''Q3'']"
  by (simp add: Index_run_def Index_page_def Index_def addCard_def addCardsFromDocument_def Let_def)

section \<open>Choosing a file\<close>

lemma handleFileSelect_cases:
  "handleFileSelect (Some f) s =
     (if size' f > 5 * 1024 * 1024 then
        s\<lparr>toasts := toasts s @
          [\<lparr>title = ''File too large'',
            description = JString ''Please select a file smaller than 5MB.'',
            variant = destructive\<rparr>]\<rparr>
      else if type' f \<notin> set allowedTypes then
        s\<lparr>toasts := toasts s @
          [\<lparr>title = ''Unsupported file type'',
            description = JString ''Please select a TXT, PDF, DOC, or DOCX file.'',
            variant = destructive\<rparr>]\<rparr>
      else s\<lparr>selectedFile := Some f\<rparr>)"
  by (simp add: handleFileSelect_def Let_def)

text \<open>
  Claim C9. A file of exactly \<open>5 * 1024 * 1024\<close> bytes whose type is allowed becomes the
  selected file; with an allowed type, any size up to the limit is selected, and a toast
  is added exactly when the size is above the limit.
\<close>

theorem handleFileSelect_accepts_exactly_5MB:
  assumes "type' f \<in> set allowedTypes"
  shows "(size' f = 5 * 1024 * 1024 \<longrightarrow> handleFileSelect (Some f) s = s\<lparr>selectedFile := Some f\<rparr>)
       \<and> (size' f \<le> 5 * 1024 * 1024 \<longrightarrow> handleFileSelect (Some f) s = s\<lparr>selectedFile := Some f\<rparr>)
       \<and> (toasts (handleFileSelect (Some f) s) = toasts s \<longleftrightarrow> size' f \<le> 5 * 1024 * 1024)"
  using assms by (auto simp: handleFileSelect_cases)

theorem handleFileSelect_accepts_exactly_5MB_witness:
  "type' \<lparr>name = ''notes.txt'', size' = 5242880, type' = ''text/plain''\<rparr> \<in> set allowedTypes
   \<and> size' \<lparr>name = ''notes.txt'', size' = 5242880, type' = ''text/plain''\<rparr> = 5 * 1024 * 1024
   \<and> selectedFile (handleFileSelect
        (Some \<lparr>name = ''notes.txt'', size' = 5242880, type' = ''text/plain''\<rparr>) CreateCardForm)
      = Some \<lparr>name = ''notes.txt'', size' = 5242880, type' = ''text/plain''\<rparr>
   \<and> toasts (handleFileSelect
        (Some \<lparr>name = ''notes.txt'', size' = 5242880, type' = ''text/plain''\<rparr>) CreateCardForm) = []"
  using handleFileSelect_accepts_exactly_5MB
    [of "\<lparr>name = ''notes.txt'', size' = 5242880, type' = ''text/plain''\<rparr>" CreateCardForm]
  by (simp add: allowedTypes_def CreateCardForm_def)

lemma handleFileUpload_requests:
  "requests (handleFileUpload eng env fetched s) =
     (case selectedFile s of None \<Rightarrow> requests s
      | Some f \<Rightarrow> requests s @ [(getApiUrl env ''/upload'', f)])"
  by (simp add: handleFileUpload_def Let_def split: option.splits sum.splits)

lemma handleFileUpload_selectedFile:
  "selectedFile (handleFileUpload eng env fetched s) = None
   \<or> selectedFile (handleFileUpload eng env fetched s) = selectedFile s"
  by (simp add: handleFileUpload_def Let_def split: option.splits sum.splits)

lemma handleFileSelect_selectedFile:
  "selectedFile (handleFileSelect sel s) = Some g \<Longrightarrow>
   selectedFile s = Some g \<or> (size' g \<le> 5 * 1024 * 1024 \<and> type' g \<in> set allowedTypes)"
  by (cases sel) (auto simp: handleFileSelect_def Let_def split: if_splits)

lemma handleFileSelect_requests: "requests (handleFileSelect sel s) = requests s"
  by (cases sel) (simp_all add: handleFileSelect_def Let_def)

text \<open>
  Two facts hold of the form at every moment: the selected file, when there is one, passed
  both checks, and so did the file of every request sent. Each event keeps them.
\<close>

lemma step_selectedFile:
  assumes "\<forall>g. selectedFile s = Some g \<longrightarrow> size' g \<le> 5 * 1024 * 1024 \<and> type' g \<in> set allowedTypes"
    and "selectedFile (CreateCardForm_step eng env s ev) = Some g"
  shows "size' g \<le> 5 * 1024 * 1024 \<and> type' g \<in> set allowedTypes"
proof (cases ev)
  case (ChooseFile sel)
  with assms(2) have "selectedFile (handleFileSelect sel (s\<lparr>fileInput := sel\<rparr>)) = Some g" by simp
  from handleFileSelect_selectedFile [OF this] assms(1) show ?thesis by auto
next
  case (ClickUpload fetched)
  with assms(2) handleFileUpload_selectedFile [of eng env fetched s]
  have "selectedFile s = Some g" by (auto split: if_splits)
  with assms(1) show ?thesis by simp
next
  case Submit
  with assms show ?thesis by (auto simp: handleSubmit_def split: if_splits)
next
  case ClickClear
  with assms show ?thesis by (auto simp: clearFile_def split: if_splits)
qed (use assms in auto)

lemma step_requests:
  assumes "\<forall>g. selectedFile s = Some g \<longrightarrow> size' g \<le> 5 * 1024 * 1024 \<and> type' g \<in> set allowedTypes"
    and "\<forall>g \<in> snd ` set (requests s). size' g \<le> 5 * 1024 * 1024 \<and> type' g \<in> set allowedTypes"
    and "g \<in> snd ` set (requests (CreateCardForm_step eng env s ev))"
  shows "size' g \<le> 5 * 1024 * 1024 \<and> type' g \<in> set allowedTypes"
proof (cases ev)
  case (ChooseFile sel)
  with assms(3) have "g \<in> snd ` set (requests s)" by (simp add: handleFileSelect_requests)
  with assms(2) show ?thesis by blast
next
  case (ClickUpload fetched)
  with assms(3) have "g \<in> snd ` set (requests s) \<or> selectedFile s = Some g"
    by (auto simp: handleFileUpload_requests split: if_splits option.splits)
  with assms(1,2) show ?thesis by blast
next
  case Submit
  with assms(3) have "g \<in> snd ` set (requests s)" by (simp add: handleSubmit_def split: if_splits)
  with assms(2) show ?thesis by blast
next
  case ClickClear
  with assms(3) have "g \<in> snd ` set (requests s)" by (simp add: clearFile_def split: if_splits)
  with assms(2) show ?thesis by blast
next
  case (SetFront v)
  with assms(3) have "g \<in> snd ` set (requests s)" by simp
  with assms(2) show ?thesis by blast
next
  case (SetBack v)
  with assms(3) have "g \<in> snd ` set (requests s)" by simp
  with assms(2) show ?thesis by blast
qed

lemma run_within_limits:
  assumes "\<forall>g. selectedFile s = Some g \<longrightarrow> size' g \<le> 5 * 1024 * 1024 \<and> type' g \<in> set allowedTypes"
    and "\<forall>g \<in> snd ` set (requests s). size' g \<le> 5 * 1024 * 1024 \<and> type' g \<in> set allowedTypes"
  shows "(\<forall>g. selectedFile (CreateCardForm_run eng env evs s) = Some g
            \<longrightarrow> size' g \<le> 5 * 1024 * 1024 \<and> type' g \<in> set allowedTypes)
       \<and> (\<forall>g \<in> snd ` set (requests (CreateCardForm_run eng env evs s)).
            size' g \<le> 5 * 1024 * 1024 \<and> type' g \<in> set allowedTypes)"
  using assms unfolding CreateCardForm_run_def
proof (induction evs arbitrary: s)
  case Nil
  then show ?case by simp
next
  case (Cons ev evs)
  have 1: "\<forall>g. selectedFile (CreateCardForm_step eng env s ev) = Some g
             \<longrightarrow> size' g \<le> 5 * 1024 * 1024 \<and> type' g \<in> set allowedTypes"
    using step_selectedFile [OF Cons.prems(1)] by blast
  have 2: "\<forall>g \<in> snd ` set (requests (CreateCardForm_step eng env s ev)).
             size' g \<le> 5 * 1024 * 1024 \<and> type' g \<in> set allowedTypes"
    using step_requests [OF Cons.prems(1) Cons.prems(2)] by blast
  from Cons.IH [OF 1 2] show ?case by simp
qed

text \<open>
  Claim C4. A file over \<open>5 * 1024 * 1024\<close> bytes, or of a type other than the four allowed,
  is turned away when it is chosen: the selection is left as it was (no file selected
  stays no file selected) and no request is sent; and whatever is done on the form
  from its first state on, that file is never the selected file and never the file of a
  request to the upload address.
\<close>

theorem rejected_file_never_uploaded:
  assumes "size' f > 5 * 1024 * 1024
         \<or> type' f \<notin> set [''text/plain'', ''application/pdf'', ''application/msword'',
              ''application/vnd.openxmlformats-officedocument.wordprocessingml.document'']"
  shows "selectedFile (handleFileSelect (Some f) s) = selectedFile s
       \<and> (selectedFile s = None \<longrightarrow> selectedFile (handleFileSelect (Some f) s) = None)
       \<and> requests (handleFileSelect (Some f) s) = requests s
       \<and> selectedFile (CreateCardForm_run eng env evs CreateCardForm) \<noteq> Some f
       \<and> f \<notin> snd ` set (requests (CreateCardForm_run eng env evs CreateCardForm))"
proof -
  from assms have rej: "\<not> (size' f \<le> 5 * 1024 * 1024 \<and> type' f \<in> set allowedTypes)"
    by (auto simp: allowedTypes_def)
  then have same: "selectedFile (handleFileSelect (Some f) s) = selectedFile s"
    by (auto simp: handleFileSelect_cases)
  have init: "\<forall>g. selectedFile CreateCardForm = Some g
                \<longrightarrow> size' g \<le> 5 * 1024 * 1024 \<and> type' g \<in> set allowedTypes"
    "\<forall>g \<in> snd ` set (requests CreateCardForm). size' g \<le> 5 * 1024 * 1024 \<and> type' g \<in> set allowedTypes"
    by (simp_all add: CreateCardForm_def)
  from run_within_limits [OF init, of eng env evs] rej
  have "selectedFile (CreateCardForm_run eng env evs CreateCardForm) \<noteq> Some f"
    and "f \<notin> snd ` set (requests (CreateCardForm_run eng env evs CreateCardForm))"
    by blast+
  with same show ?thesis by (simp add: handleFileSelect_requests)
qed

text \<open>An image of 6000000 bytes, chosen on the fresh form and followed by a click on upload.\<close>

theorem rejected_file_never_uploaded_witness:
  "(size' \<lparr>name = ''scan.png'', size' = 6000000, type' = ''image/png''\<rparr> > 5 * 1024 * 1024
    \<or> type' \<lparr>name = ''scan.png'', size' = 6000000, type' = ''image/png''\<rparr>
        \<notin> set [''text/plain'', ''application/pdf'', ''application/msword'',
              ''application/vnd.openxmlformats-officedocument.wordprocessingml.document''])
   \<and> selectedFile (handleFileSelect
        (Some \<lparr>name = ''scan.png'', size' = 6000000, type' = ''image/png''\<rparr>) CreateCardForm) = None
   \<and> \<lparr>name = ''scan.png'', size' = 6000000, type' = ''image/png''\<rparr>
       \<notin> snd ` set (requests (CreateCardForm_run example_engine None
            [ChooseFile (Some \<lparr>name = ''scan.png'', size' = 6000000, type' = ''image/png''\<rparr>),
             ClickUpload (Inl (TypeError ''Failed to fetch''))]
            CreateCardForm))"
  using rejected_file_never_uploaded
    [of "\<lparr>name = ''scan.png'', size' = 6000000, type' = ''image/png''\<rparr>" CreateCardForm
        example_engine None
        "[ChooseFile (Some \<lparr>name = ''scan.png'', size' = 6000000, type' = ''image/png''\<rparr>),
          ClickUpload (Inl (TypeError ''Failed to fetch''))]"]
  by (simp add: CreateCardForm_def)

text \<open>
  A file turned away leaves an earlier selection in place: the upload that follows sends
  the earlier file.
\<close>

lemma earlier_selection_is_sent:
  "requests (CreateCardForm_run example_engine None
      [ChooseFile (Some \<lparr>name = ''notes.txt'', size' = 100, type' = ''text/plain''\<rparr>),
       ChooseFile (Some \<lparr>name = ''scan.png'', size' = 6000000, type' = ''image/png''\<rparr>),
       ClickUpload (Inl (TypeError ''Failed to fetch''))]
      CreateCardForm)
   = [(''http://localhost:5001/upload'', \<lparr>name = ''notes.txt'', size' = 100, type' = ''text/plain''\<rparr>)]"
  by (simp add: CreateCardForm_run_def CreateCardForm_def handleFileSelect_def handleFileUpload_def
      allowedTypes_def getApiUrl_def API_BASE_URL_def startsWith_def couldNotConnect_def Let_def)

section \<open>The match of the response parser\<close>

lemma close_none:
  "CHR '']'' \<notin> set s \<Longrightarrow> matchHere [Star AnyChar, One (Lit CHR '']'')] s = None"
  by (induction s) auto

lemma star_to_last:
  "CHR '']'' \<notin> set post \<Longrightarrow>
   matchHere [Star AnyChar, One (Lit CHR '']'')] (mid @ CHR '']'' # post) = Some (mid @ '']'')"
  by (induction mid) (simp_all add: close_none)

lemma pattern_at_open:
  "CHR '']'' \<notin> set post \<Longrightarrow>
   matchHere jsonArrayPattern (CHR ''['' # mid @ CHR '']'' # post) = Some (CHR ''['' # mid @ '']'')"
  by (simp add: jsonArrayPattern_def star_to_last)

lemma pattern_not_open:
  "c \<noteq> CHR ''['' \<Longrightarrow> matchHere jsonArrayPattern (c # s) = None"
  by (simp add: jsonArrayPattern_def)

lemma String_match_skip:
  "CHR ''['' \<notin> set pre \<Longrightarrow> s \<noteq> [] \<Longrightarrow>
   String_match (pre @ s) jsonArrayPattern = String_match s jsonArrayPattern"
  by (induction pre) (auto simp: pattern_not_open)

lemma String_match_first_to_last:
  assumes "CHR ''['' \<notin> set pre" and "CHR '']'' \<notin> set post"
  shows "String_match (pre @ CHR ''['' # mid @ CHR '']'' # post) jsonArrayPattern
         = Some (CHR ''['' # mid @ '']'')"
proof -
  have "String_match (pre @ CHR ''['' # mid @ CHR '']'' # post) jsonArrayPattern
        = String_match (CHR ''['' # mid @ CHR '']'' # post) jsonArrayPattern"
    using assms(1) by (intro String_match_skip) simp_all
  also have "\<dots> = Some (CHR ''['' # mid @ '']'')"
    using assms(2) by (simp add: pattern_at_open)
  finally show ?thesis .
qed

lemma String_match_empty: "String_match [] jsonArrayPattern = None"
  by (simp add: jsonArrayPattern_def)

text \<open>
  Claim C2, as the code has it. In a reply with a \<^verbatim>\<open>[\<close> and a \<^verbatim>\<open>]\<close> after it, the parser
  takes the substring from the first \<^verbatim>\<open>[\<close> of the reply to the last \<^verbatim>\<open>]\<close> of the reply, and
  that substring is what it gives to \<^verbatim>\<open>JSON.parse\<close>.
\<close>

theorem parseFlashcards_first_to_last:
  assumes "CHR ''['' \<notin> set pre" and "CHR '']'' \<notin> set post"
  shows "String_match (pre @ ''['' @ mid @ '']'' @ post) jsonArrayPattern = Some (''['' @ mid @ '']'')
       \<and> parseFlashcards eng (JString (pre @ ''['' @ mid @ '']'' @ post))
           = (case JSON_parse eng (''['' @ mid @ '']'') of
                Inl e \<Rightarrow> Inl e
              | Inr flashcards \<Rightarrow> validateFlashcards flashcards)"
proof -
  have m: "String_match (pre @ ''['' @ mid @ '']'' @ post) jsonArrayPattern = Some (''['' @ mid @ '']'')"
    using String_match_first_to_last [OF assms, of mid] by simp
  then show ?thesis by (simp add: parseFlashcards_def)
qed

text \<open>A reply with two bracketed parts: the match runs to the bracket that closes the second.\<close>

theorem parseFlashcards_first_to_last_witness:
  \<open>CHR ''['' \<notin> set ''Cards: '' \<and> CHR '']'' \<notin> set '' (end)''
   \<and> String_match ''Cards: [{"front":"Q","back":"A"}] Sources: [1] (end)'' jsonArrayPattern
       = Some ''[{"front":"Q","back":"A"}] Sources: [1]''
   \<and> parseFlashcards example_engine (JString ''Cards: [{"front":"Q","back":"A"}] Sources: [1] (end)'')
       = Inl (SyntaxError ''Unexpected token in JSON'')\<close>
  using parseFlashcards_first_to_last
    [of \<open>''Cards: ''\<close> \<open>'' (end)''\<close> \<open>''{"front":"Q","back":"A"}] Sources: [1''\<close> example_engine]
  by (simp add: example_engine_def example_parse_def)

text \<open>
  Claim C2, as the specification has it, fails on a reply with text in brackets after the
  array: the substring to the earliest \<^verbatim>\<open>]\<close> is the array, which parses to one card, and
  the parser takes the reply to its last \<^verbatim>\<open>]\<close>, which does not parse.
\<close>

theorem parseFlashcards_first_bracketed_counterexample:
  \<open>spec_firstBracketed ''[{"front":"Q","back":"A"}] Sources: [1]'' = Some ''[{"front":"Q","back":"A"}]''
   \<and> String_match ''[{"front":"Q","back":"A"}] Sources: [1]'' jsonArrayPattern
       = Some ''[{"front":"Q","back":"A"}] Sources: [1]''
   \<and> String_match ''[{"front":"Q","back":"A"}] Sources: [1]'' jsonArrayPattern
       \<noteq> spec_firstBracketed ''[{"front":"Q","back":"A"}] Sources: [1]''
   \<and> parseFlashcards example_engine (JString ''[{"front":"Q","back":"A"}] Sources: [1]'')
       = Inl (SyntaxError ''Unexpected token in JSON'')
   \<and> JSON_parse example_engine ''[{"front":"Q","back":"A"}]''
       = Inr (JArray [JObject [(''front'', JString ''Q''), (''back'', JString ''A'')]])\<close>
  by (simp add: spec_firstBracketed_def jsonArrayPattern_def parseFlashcards_def
      example_engine_def example_parse_def)

section \<open>The cards a reply yields\<close>

text \<open>The filter's callback accepts the entries the specification calls valid, and no other.\<close>

lemma isValidFlashcard_spec: "isValidFlashcard v = spec_validEntry v"
  by (cases v) (auto simp: isValidFlashcard_def optProp_def split: option.splits jsval.splits)

lemma filter_isValidFlashcard:
  "filter isValidFlashcard entries = filter spec_validEntry entries"
  by (rule filter_cong) (simp_all add: isValidFlashcard_spec)

lemma validateFlashcards_nonempty: "validateFlashcards v \<noteq> Inr []"
  by (auto simp: validateFlashcards_def Let_def split: jsval.splits)

lemma parseFlashcards_nonempty: "parseFlashcards eng v \<noteq> Inr []"
  by (auto simp: parseFlashcards_def validateFlashcards_nonempty
      split: jsval.splits option.splits sum.splits)

lemma tryBlock_nonempty: "tryBlock eng fetched \<noteq> Inr []"
  by (auto simp: tryBlock_def parseFlashcards_nonempty split: sum.splits)

lemma generateFlashcards_nonempty: "generateFlashcards eng ls fetched \<noteq> Inr []"
  by (auto simp: generateFlashcards_def tryBlock_nonempty split: sum.splits option.splits)

text \<open>
  Claim C1, as the code has it. With a stored key, an \<^verbatim>\<open>ok\<close> response whose first content
  block holds the reply, a match in the reply and an array parsed from the match: when
  at least one entry of the array is valid, \<open>generateFlashcards\<close> returns the valid entries
  and only them, in the order of the array.
\<close>

theorem generateFlashcards_returns_valid_entries:
  assumes "getApiKey ls = Some k" and "k \<noteq> []"
    and "ok r" and "json r = Inr data" and "contentText data = Inr (JString t)"
    and "String_match t jsonArrayPattern = Some j"
    and "JSON_parse eng j = Inr (JArray entries)"
    and "filter spec_validEntry entries \<noteq> []"
  shows "generateFlashcards eng ls (Inr r) = Inr (filter spec_validEntry entries)"
proof -
  from assms(6) have "t \<noteq> []" using String_match_empty by auto
  with assms(6,7,8) have "parseFlashcards eng (JString t) = Inr (filter spec_validEntry entries)"
    by (simp add: parseFlashcards_def validateFlashcards_def filter_isValidFlashcard)
  with assms(3,4,5) have "tryBlock eng (Inr r) = Inr (filter spec_validEntry entries)"
    by (simp add: tryBlock_def)
  with assms(1,2) show ?thesis by (simp add: generateFlashcards_def)
qed

text \<open>
  A reply with text around an array of three entries: a card, an entry whose front is a
  blank, and \<^verbatim>\<open>null\<close>. The card is returned.
\<close>

theorem generateFlashcards_returns_valid_entries_witness:
  \<open>getApiKey (saveApiKey ''sk-key'' Map.empty) = Some ''sk-key'' \<and> ''sk-key'' \<noteq> []
   \<and> ok (example_response ''Here are your cards: [{"front":"Q","back":"A"},{"front":" ","back":"B"},null] Good luck!'')
   \<and> String_match ''Here are your cards: [{"front":"Q","back":"A"},{"front":" ","back":"B"},null] Good luck!''
         jsonArrayPattern = Some ''[{"front":"Q","back":"A"},{"front":" ","back":"B"},null]''
   \<and> JSON_parse example_engine ''[{"front":"Q","back":"A"},{"front":" ","back":"B"},null]''
       = Inr (JArray [JObject [(''front'', JString ''Q''), (''back'', JString ''A'')],
                      JObject [(''front'', JString '' ''), (''back'', JString ''B'')],
                      JNull])
   \<and> filter spec_validEntry
         [JObject [(''front'', JString ''Q''), (''back'', JString ''A'')],
          JObject [(''front'', JString '' ''), (''back'', JString ''B'')],
          JNull] \<noteq> []
   \<and> generateFlashcards example_engine (saveApiKey ''sk-key'' Map.empty)
         (Inr (example_response
           ''Here are your cards: [{"front":"Q","back":"A"},{"front":" ","back":"B"},null] Good luck!''))
       = Inr [JObject [(''front'', JString ''Q''), (''back'', JString ''A'')]]\<close>
proof -
  let ?reply = \<open>''Here are your cards: [{"front":"Q","back":"A"},{"front":" ","back":"B"},null] Good luck!''\<close>
  let ?j = \<open>''[{"front":"Q","back":"A"},{"front":" ","back":"B"},null]''\<close>
  let ?entries = "[JObject [(''front'', JString ''Q''), (''back'', JString ''A'')],
                   JObject [(''front'', JString '' ''), (''back'', JString ''B'')],
                   JNull]"
  have k: "getApiKey (saveApiKey ''sk-key'' Map.empty) = Some ''sk-key''"
    by (simp add: getApiKey_def saveApiKey_def)
  have k': "''sk-key'' \<noteq> []" by simp
  have o: "ok (example_response ?reply)" by (simp add: example_response_def)
  have d: "json (example_response ?reply) = Inr (JObject
        [(''id'', JString ''msg_01''),
         (''content'', JArray [JObject [(''type'', JString ''text''), (''text'', JString ?reply)]])])"
    by (simp add: example_response_def)
  have c: "contentText (JObject
        [(''id'', JString ''msg_01''),
         (''content'', JArray [JObject [(''type'', JString ''text''), (''text'', JString ?reply)]])])
      = Inr (JString ?reply)"
    by (simp add: contentText_def optProp_def)
  have m: "String_match ?reply jsonArrayPattern = Some ?j"
    by (simp add: jsonArrayPattern_def)
  have p: "JSON_parse example_engine ?j = Inr (JArray ?entries)"
    by (simp add: example_engine_def example_parse_def)
  have v: "filter spec_validEntry ?entries = [JObject [(''front'', JString ''Q''), (''back'', JString ''A'')]]"
    by (simp add: trim_def isWhiteSpace_def)
  then have n: "filter spec_validEntry ?entries \<noteq> []" by simp
  from generateFlashcards_returns_valid_entries [OF k k' o d c m p n] v k o m p n
  show ?thesis by simp
qed

text \<open>
  Claim C1, as the specification has it, fails where no entry is valid: on an array whose
  one entry has no \<^verbatim>\<open>back\<close>, the valid entries are none, and \<open>generateFlashcards\<close> does not
  return them, the empty list, but raises.
\<close>

theorem generateFlashcards_returns_valid_entries_counterexample:
  \<open>String_match ''[{"front":"Q"}]'' jsonArrayPattern = Some ''[{"front":"Q"}]''
   \<and> JSON_parse example_engine ''[{"front":"Q"}]'' = Inr (JArray [JObject [(''front'', JString ''Q'')]])
   \<and> filter spec_validEntry [JObject [(''front'', JString ''Q'')]] = []
   \<and> generateFlashcards example_engine (saveApiKey ''sk-key'' Map.empty)
        (Inr (example_response ''[{"front":"Q"}]''))
      \<noteq> Inr (filter spec_validEntry [JObject [(''front'', JString ''Q'')]])\<close>
  by (simp add: jsonArrayPattern_def example_engine_def example_parse_def generateFlashcards_def
      getApiKey_def saveApiKey_def tryBlock_def example_response_def contentText_def optProp_def
      parseFlashcards_def validateFlashcards_def isValidFlashcard_def)

text \<open>
  Claim C5. \<open>generateFlashcards\<close> never returns the empty list; where the array parsed
  from the reply has no valid entry, it raises the error
  \<^verbatim>\<open>No valid flashcards found in response\<close>.
\<close>

theorem generateFlashcards_never_empty:
  "generateFlashcards eng ls fetched \<noteq> Inr []
   \<and> (getApiKey ls = Some k \<and> k \<noteq> [] \<and> fetched = Inr r \<and> ok r \<and> json r = Inr data
        \<and> contentText data = Inr (JString t)
        \<and> String_match t jsonArrayPattern = Some j
        \<and> JSON_parse eng j = Inr (JArray entries)
        \<and> filter spec_validEntry entries = []
      \<longrightarrow> generateFlashcards eng ls fetched = Inl (Error ''No valid flashcards found in response''))"
proof (intro conjI impI)
  show "generateFlashcards eng ls fetched \<noteq> Inr []" by (rule generateFlashcards_nonempty)
next
  assume a: "getApiKey ls = Some k \<and> k \<noteq> [] \<and> fetched = Inr r \<and> ok r \<and> json r = Inr data
        \<and> contentText data = Inr (JString t)
        \<and> String_match t jsonArrayPattern = Some j
        \<and> JSON_parse eng j = Inr (JArray entries)
        \<and> filter spec_validEntry entries = []"
  from a have "t \<noteq> []" using String_match_empty by auto
  with a have "parseFlashcards eng (JString t) = Inl (Error ''No valid flashcards found in response'')"
    by (simp add: parseFlashcards_def validateFlashcards_def filter_isValidFlashcard)
  with a have "tryBlock eng fetched = Inl (Error ''No valid flashcards found in response'')"
    by (simp add: tryBlock_def)
  with a show "generateFlashcards eng ls fetched = Inl (Error ''No valid flashcards found in response'')"
    by (simp add: generateFlashcards_def)
qed

text \<open>A reply whose array is empty.\<close>

theorem generateFlashcards_never_empty_witness:
  \<open>getApiKey (saveApiKey ''sk-key'' Map.empty) = Some ''sk-key'' \<and> ''sk-key'' \<noteq> []
   \<and> ok (example_response ''No cards: []'')
   \<and> String_match ''No cards: []'' jsonArrayPattern = Some ''[]''
   \<and> JSON_parse example_engine ''[]'' = Inr (JArray [])
   \<and> filter spec_validEntry [] = []
   \<and> generateFlashcards example_engine (saveApiKey ''sk-key'' Map.empty)
        (Inr (example_response ''No cards: []''))
       = Inl (Error ''No valid flashcards found in response'')\<close>
proof -
  have k: "getApiKey (saveApiKey ''sk-key'' Map.empty) = Some ''sk-key''"
    by (simp add: getApiKey_def saveApiKey_def)
  have o: "ok (example_response ''No cards: []'')" by (simp add: example_response_def)
  have d: "json (example_response ''No cards: []'') = Inr (JObject
        [(''id'', JString ''msg_01''),
         (''content'', JArray [JObject [(''type'', JString ''text''), (''text'', JString ''No cards: []'')]])])"
    by (simp add: example_response_def)
  have c: "contentText (JObject
        [(''id'', JString ''msg_01''),
         (''content'', JArray [JObject [(''type'', JString ''text''), (''text'', JString ''No cards: []'')]])])
      = Inr (JString ''No cards: []'')"
    by (simp add: contentText_def optProp_def)
  have m: "String_match ''No cards: []'' jsonArrayPattern = Some ''[]''"
    by (simp add: jsonArrayPattern_def)
  have p: "JSON_parse example_engine ''[]'' = Inr (JArray [])"
    by (simp add: example_engine_def example_parse_def)
  from generateFlashcards_never_empty
    [of example_engine "saveApiKey ''sk-key'' Map.empty" "Inr (example_response ''No cards: []'')"
        "''sk-key''" "example_response ''No cards: []''" _ "''No cards: []''" "''[]''" "[]"]
    k o d c m p
  show ?thesis by simp
qed

section \<open>The notice after an upload\<close>

text \<open>
  Every run of \<open>handleUpload\<close> adds one toast, and never the one titled
  \<^verbatim>\<open>No cards generated\<close>: its branch needs an empty list from \<open>generateFlashcards\<close>.
\<close>

lemma handleUpload_toast:
  "\<exists>t. toasts (handleUpload eng fileRead fetched s) = toasts s @ [t]
       \<and> title t \<noteq> ''No cards generated''"
  using generateFlashcards_nonempty [of eng _ fetched]
  by (auto simp: handleUpload_def Let_def processingFailed_def split: option.splits sum.splits)

text \<open>
  Claim C6. With a file and a key entered, a reply that is the empty array, and a reply
  with no array at all, each end in the toast \<^verbatim>\<open>Processing failed\<close> with the message of the
  error raised.
\<close>

theorem handleUpload_empty_result_toast:
  "toasts (handleUpload example_engine (Inr ''chapter one'') (Inr (example_response ''[]''))
      \<lparr>toasts = [], file' = Some \<lparr>name = ''notes.txt'', size' = 11, type' = ''text/plain''\<rparr>,
        isProcessing = False, progress = 0, apiKey = ''sk-key'', fileInputValue = ''notes.txt'',
        localStorage = Map.empty, onCardsGenerated = []\<rparr>)
   = [\<lparr>title = ''Processing failed'',
       description = JString ''No valid flashcards found in response'',
       variant = destructive\<rparr>]
   \<and> toasts (handleUpload example_engine (Inr ''chapter one'')
        (Inr (example_response ''Sorry, nothing to study here.''))
      \<lparr>toasts = [], file' = Some \<lparr>name = ''notes.txt'', size' = 11, type' = ''text/plain''\<rparr>,
        isProcessing = False, progress = 0, apiKey = ''sk-key'', fileInputValue = ''notes.txt'',
        localStorage = Map.empty, onCardsGenerated = []\<rparr>)
   = [\<lparr>title = ''Processing failed'',
       description = JString ''Could not find valid JSON in Claude response'',
       variant = destructive\<rparr>]"
  by (simp add: handleUpload_def Let_def processingFailed_def trim_def isWhiteSpace_def
      generateFlashcards_def getApiKey_def saveApiKey_def tryBlock_def example_response_def
      contentText_def optProp_def parseFlashcards_def validateFlashcards_def jsonArrayPattern_def
      example_engine_def example_parse_def)

end
